theory Spec2Isabelle
  imports Complex_Main
begin

section \<open>Vectors in three dimensions\<close>

text \<open>
  The script works on numpy arrays of three floats.  They are modelled as triples of
  reals, so every statement below is about exact real arithmetic.
\<close>

type_synonym vec3 = "real \<times> real \<times> real"

fun dot :: "vec3 \<Rightarrow> vec3 \<Rightarrow> real" where
  "dot (a1, a2, a3) (b1, b2, b3) = a1 * b1 + a2 * b2 + a3 * b3"

fun cross :: "vec3 \<Rightarrow> vec3 \<Rightarrow> vec3" where
  "cross (a1, a2, a3) (b1, b2, b3) =
     (a2 * b3 - a3 * b2, a3 * b1 - a1 * b3, a1 * b2 - a2 * b1)"

fun smul :: "real \<Rightarrow> vec3 \<Rightarrow> vec3" where
  "smul c (a1, a2, a3) = (c * a1, c * a2, c * a3)"

fun vadd :: "vec3 \<Rightarrow> vec3 \<Rightarrow> vec3" where
  "vadd (a1, a2, a3) (b1, b2, b3) = (a1 + b1, a2 + b2, a3 + b3)"

fun vsub :: "vec3 \<Rightarrow> vec3 \<Rightarrow> vec3" where
  "vsub (a1, a2, a3) (b1, b2, b3) = (a1 - b1, a2 - b2, a3 - b3)"

definition linalg_norm :: "vec3 \<Rightarrow> real" where
  "linalg_norm v = sqrt (dot v v)"

subsection \<open>Constants of the script and of the animation framework\<close>

definition DEGREES :: real where
  "DEGREES = pi / 180"

definition Xaxis :: vec3 where "Xaxis = (1, 0, 0)"
definition Yaxis :: vec3 where "Yaxis = (0, 1, 0)"
definition Zaxis :: vec3 where "Zaxis = (0, 0, 1)"

section \<open>Primitives of the numeric and animation libraries\<close>

text \<open>
  The script calls numpy, scipy and the animation framework.  Only what the script's own
  arithmetic depends on is modelled, with the documented meaning of each primitive.
\<close>

text \<open>Dividing an array by a scalar, entry by entry.\<close>

fun vdiv :: "vec3 \<Rightarrow> real \<Rightarrow> vec3" where
  "vdiv (a1, a2, a3) c = (a1 / c, a2 / c, a3 / c)"

text \<open>
  Rotating a point about the origin by an angle (radians) about an axis, right-handed.
  The framework normalises the axis; with the zero axis it leaves the point where it is.
\<close>

definition rotate_about_origin :: "real \<Rightarrow> vec3 \<Rightarrow> vec3 \<Rightarrow> vec3" where
  "rotate_about_origin angle axis p =
     (if linalg_norm axis = 0 then p
      else let k = vdiv axis (linalg_norm axis) in
        vadd (vadd (smul (cos angle) p) (smul (sin angle) (cross k p)))
             (smul ((1 - cos angle) * dot k p) k))"

text \<open>
  The end point of \<open>Arc(radius, start_angle, angle)\<close>: the arc lies in the horizontal
  plane, centred at the origin.
\<close>

definition arc_end :: "real \<Rightarrow> real \<Rightarrow> real \<Rightarrow> vec3" where
  "arc_end radius start_angle angle =
     (radius * cos (start_angle + angle), radius * sin (start_angle + angle), 0)"

definition shift :: "vec3 \<Rightarrow> vec3 \<Rightarrow> vec3" where
  "shift p d = vadd p d"

text \<open>A matrix is the triple of its rows; applying it takes the dot product with each row.\<close>

type_synonym mat3 = "vec3 \<times> vec3 \<times> vec3"

fun mat_apply :: "mat3 \<Rightarrow> vec3 \<Rightarrow> vec3" where
  "mat_apply (r1, r2, r3) v = (dot r1 v, dot r2 v, dot r3 v)"

fun det3 :: "mat3 \<Rightarrow> real" where
  "det3 (r1, r2, r3) = dot r1 (cross r2 r3)"

text \<open>
  What scipy's \<open>from_matrix\<close> expects: orthonormal rows and determinant one.
\<close>

fun is_rotation_matrix :: "mat3 \<Rightarrow> bool" where
  "is_rotation_matrix (r1, r2, r3) =
     (dot r1 r1 = 1 \<and> dot r2 r2 = 1 \<and> dot r3 r3 = 1 \<and>
      dot r1 r2 = 0 \<and> dot r1 r3 = 0 \<and> dot r2 r3 = 0 \<and>
      det3 (r1, r2, r3) = 1)"

text \<open>
  Two things can go wrong with a value.  Dividing by zero does not stop numpy: the entries
  become not-a-number and the script goes on; a value that depends on such a division is
  \<open>Inl ZeroDivision\<close>.  A library call can raise an exception; the script catches
  none, so the exception ends the call of qubit: \<open>Inl LibraryError\<close>.
\<close>

datatype error = ZeroDivision | LibraryError

text \<open>
  Two library results are not arithmetic of the script: what scipy does with a matrix
  (\<open>R.from_matrix(m).as_rotvec()\<close>) and the width of a typeset label.  They are
  parameters of the model.  The matrix that scipy receives may have not-a-number entries
  (\<open>Inl ZeroDivision\<close>); scipy returns a rotation vector, returns not-a-number entries,
  or raises (\<open>Inl LibraryError\<close>), depending on the matrix and on the library's version.
\<close>

record library =
  from_matrix_as_rotvec :: "error + mat3 \<Rightarrow> error + vec3"
  tex_width :: "string \<Rightarrow> real"

text \<open>
  The documented meaning of a rotation vector: turning by its length about its direction
  is the rotation that the matrix performs.
\<close>

definition rotvec_represents :: "vec3 \<Rightarrow> mat3 \<Rightarrow> bool" where
  "rotvec_represents rv m \<longleftrightarrow>
     (\<forall>v. rotate_about_origin (linalg_norm rv) rv v = mat_apply m v)"

text \<open>
  What the library documents: for every rotation matrix it returns a rotation vector of
  that matrix.  Nothing is asked about any other matrix.
\<close>

definition as_rotvec_correct :: "library \<Rightarrow> bool" where
  "as_rotvec_correct lib \<longleftrightarrow>
     (\<forall>m. is_rotation_matrix m \<longrightarrow>
        (\<exists>rv. from_matrix_as_rotvec lib (Inr m) = Inr rv \<and> rotvec_represents rv m))"

text \<open>
  A rotation vector computed from the matrix: away from the symmetric matrices it lies
  along the axial vector of the matrix and is as long as the arc cosine of
  (trace - 1) / 2; the identity has the zero vector; a half turn has a row of the matrix
  plus the identity, scaled to the length pi.
\<close>

fun rotvec_of_matrix :: "mat3 \<Rightarrow> vec3" where
  "rotvec_of_matrix ((a, b, c), (d, e, f), (g, h, i)) =
     (if (h - f, c - g, d - b) \<noteq> (0, 0, 0) then
        smul (arccos ((a + e + i - 1) / 2) / linalg_norm (h - f, c - g, d - b))
             (h - f, c - g, d - b)
      else if a + e + i = 3 then (0, 0, 0)
      else if a + 1 \<noteq> 0 then smul (pi / sqrt (2 * (a + 1))) (a + 1, b, c)
      else if e + 1 \<noteq> 0 then smul (pi / sqrt (2 * (e + 1))) (d, e + 1, f)
      else smul (pi / sqrt (2 * (i + 1))) (g, h, i + 1))"

subsection \<open>Mobjects, animations and the timeline\<close>

text \<open>A typeset label: its source text and its font size.\<close>

datatype mathtex = MathTex string nat

datatype animation =
    IncrementValue real
  | Transform mathtex mathtex
  | Create mathtex
  | AnimationGroup "animation list"

datatype step = Wait real | Play animation real




text \<open>Directions of the framework and the camera angle \<open>theta\<close> of the script (line 19).\<close>

definition RIGHT :: vec3 where "RIGHT = (1, 0, 0)"
definition DOWN :: vec3 where "DOWN = (0, -1, 0)"

definition theta :: real where
  "theta = 30 * DEGREES"

section \<open>The function qubit\<close>

record qubit_args =
  start_point :: "real \<times> real"
  rotate_axis :: vec3
  rotate_angle :: real
  show_basis :: bool
  start_name :: string
  end_name :: string
  end_coef :: "string option"

text \<open>Lines 24-28: the start point from the pair of angles, given in degrees.\<close>

definition qubit_point :: "real \<times> real \<Rightarrow> vec3" where
  "qubit_point sp =
     (cos (fst sp * DEGREES) * sin (snd sp * DEGREES),
      sin (fst sp * DEGREES) * sin (snd sp * DEGREES),
      cos (snd sp * DEGREES))"

text \<open>
  The same lines with the sine and the cosine that the numeric library computes in place
  of the exact ones: in double precision the sine of \<open>180 * DEGREES\<close> is about
  1.2246e-16 and not zero.
\<close>

definition qubit_point_with :: "(real \<Rightarrow> real) \<Rightarrow> (real \<Rightarrow> real) \<Rightarrow> real \<times> real \<Rightarrow> vec3" where
  "qubit_point_with s c sp =
     (c (fst sp * DEGREES) * s (snd sp * DEGREES),
      s (fst sp * DEGREES) * s (snd sp * DEGREES),
      c (snd sp * DEGREES))"

text \<open>
  Lines 40-53: the arrow from the origin to the point, and its updater, which rotates a
  copy of the original arrow by the tracker's value (degrees).  The arrow is its pair of
  end points.
\<close>

definition qubit_vec :: "vec3 \<Rightarrow> vec3 \<Rightarrow> real \<Rightarrow> vec3 \<times> vec3" where
  "qubit_vec p axis rot =
     (rotate_about_origin (rot * DEGREES) axis (0, 0, 0),
      rotate_about_origin (rot * DEGREES) axis p)"

text \<open>Lines 55-57: the part of the point orthogonal to the axis, and its length.\<close>

definition qubit_x0 :: "vec3 \<Rightarrow> vec3 \<Rightarrow> vec3" where
  "qubit_x0 p z = vsub p (smul (dot p z) z)"

definition qubit_r :: "vec3 \<Rightarrow> vec3 \<Rightarrow> real" where
  "qubit_r p z = linalg_norm (qubit_x0 p z)"

text \<open>Lines 58-59: the frame; the division has no guard in the script.\<close>

definition qubit_frame :: "vec3 \<Rightarrow> vec3 \<Rightarrow> error + mat3" where
  "qubit_frame p z =
     (let x = qubit_x0 p z; r = linalg_norm x in
      if r = 0 then Inl ZeroDivision
      else (let x = vdiv x r; y = cross z x in Inr (x, y, z)))"

text \<open>
  Lines 60-61: the rotation vector of the frame and the angle of the arc's rotation.  The
  frame goes to the library as it is, with no check.
\<close>

definition qubit_rotvec :: "library \<Rightarrow> vec3 \<Rightarrow> vec3 \<Rightarrow> error + vec3" where
  "qubit_rotvec lib p z = from_matrix_as_rotvec lib (qubit_frame p z)"

definition qubit_angle :: "library \<Rightarrow> vec3 \<Rightarrow> vec3 \<Rightarrow> error + real" where
  "qubit_angle lib p z =
     (case qubit_rotvec lib p z of Inl e \<Rightarrow> Inl e
      | Inr rotvec \<Rightarrow> Inr (- linalg_norm rotvec))"

text \<open>
  Lines 63-80: the arc and its updater; the end point of the arc when the tracker has the
  value \<open>rot\<close>.
\<close>

definition qubit_arc :: "library \<Rightarrow> vec3 \<Rightarrow> vec3 \<Rightarrow> real \<Rightarrow> error + vec3" where
  "qubit_arc lib p z rot =
     (case qubit_rotvec lib p z of Inl e \<Rightarrow> Inl e
      | Inr rotvec \<Rightarrow>
          (case qubit_angle lib p z of Inl e \<Rightarrow> Inl e
           | Inr angle \<Rightarrow>
               Inr (rotate_about_origin angle rotvec
                      (shift (arc_end (qubit_r p z) 0 (rot * DEGREES)) (0, 0, dot p z)))))"

text \<open>Lines 92-99: where the end label is put.\<close>

definition qubit_state_psi_end :: "vec3 \<Rightarrow> vec3 \<Rightarrow> real \<Rightarrow> vec3" where
  "qubit_state_psi_end p axis angle =
     rotate_about_origin (angle * DEGREES) axis (smul 1.25 p)"

text \<open>Lines 112-122: where the moving label is when the tracker has the value \<open>rot\<close>.\<close>

definition qubit_state_psi :: "vec3 \<Rightarrow> vec3 \<Rightarrow> real \<Rightarrow> vec3" where
  "qubit_state_psi p axis rot =
     rotate_about_origin (rot * DEGREES) axis (smul 1.25 p)"

text \<open>The raw strings of the labels: \<open>ket s\<close> is s between a bar and the TeX command rangle.\<close>

definition ket :: "string \<Rightarrow> string" where
  "ket s = ''|'' @ s @ CHR 0x5C # ''rangle''"

definition psi :: string where
  "psi = CHR 0x5C # ''psi''"

text \<open>Lines 126-129: the labels of the two poles.\<close>

definition qubit_basis :: "bool \<Rightarrow> (mathtex \<times> vec3) list" where
  "qubit_basis sb =
     (if sb then
        [(MathTex (ket ''0'') 108, smul 1.25 (0, 0, 1)),
         (MathTex (ket ''1'') 108, smul 1.25 (0, 0, -1))]
      else [])"

text \<open>Lines 133-140: the coefficient label, if any, and where it is put.\<close>

definition qubit_state_psi_coef ::
  "library \<Rightarrow> vec3 \<Rightarrow> string \<Rightarrow> string option \<Rightarrow> (mathtex \<times> vec3) option" where
  "qubit_state_psi_coef lib end_pos en ec =
     (case ec of None \<Rightarrow> None
      | Some c \<Rightarrow>
          Some (MathTex c 108,
                shift end_pos
                  (smul ((tex_width lib en + tex_width lib c) * 0.13)
                     (vadd (smul (sin theta) RIGHT) (smul (cos theta) DOWN)))))"

text \<open>Lines 133-146: the animation of the labels.\<close>

definition qubit_state_anim :: "string \<Rightarrow> string \<Rightarrow> string option \<Rightarrow> animation" where
  "qubit_state_anim sn en ec =
     (case ec of
        Some c \<Rightarrow> AnimationGroup [Transform (MathTex sn 108) (MathTex en 108), Create (MathTex c 108)]
      | None \<Rightarrow> Transform (MathTex sn 108) (MathTex en 108))"

text \<open>
  The body of qubit, statement by statement: the geometry as a function of the tracker's
  value, the labels, and the sequence of waits and plays (lines 148-151), each as its
  statement computes it when the statement is reached.
\<close>

record qubit_result =
  point :: vec3
  vec :: "real \<Rightarrow> vec3 \<times> vec3"
  r :: real
  frame :: "error + mat3"
  rotvec :: "error + vec3"
  angle :: "error + real"
  arc :: "real \<Rightarrow> error + vec3"
  state_psi_end :: vec3
  state_psi :: "real \<Rightarrow> vec3"
  basis :: "(mathtex \<times> vec3) list"
  state_psi_coef :: "(mathtex \<times> vec3) option"
  rot_start :: real
  rot_end :: real
  state_rot :: animation
  state_anim :: animation
  timeline :: "step list"

definition qubit :: "library \<Rightarrow> qubit_args \<Rightarrow> qubit_result" where
  "qubit lib a =
     (let p = qubit_point (start_point a);
          z = rotate_axis a;
          end_pos = qubit_state_psi_end p z (rotate_angle a);
          rot_anim = IncrementValue (rotate_angle a);
          label_anim = qubit_state_anim (start_name a) (end_name a) (end_coef a)
      in \<lparr> point = p,
           vec = qubit_vec p z,
           r = qubit_r p z,
           frame = qubit_frame p z,
           rotvec = qubit_rotvec lib p z,
           angle = qubit_angle lib p z,
           arc = qubit_arc lib p z,
           state_psi_end = end_pos,
           state_psi = qubit_state_psi p z,
           basis = qubit_basis (show_basis a),
           state_psi_coef = qubit_state_psi_coef lib end_pos (end_name a) (end_coef a),
           rot_start = 0,
           rot_end = 0 + rotate_angle a,
           state_rot = rot_anim,
           state_anim = label_anim,
           timeline = [Wait 0.5, Play rot_anim 1.5, Play label_anim 0.5, Wait 0.5] \<rparr>)"

text \<open>
  The call of qubit.  When the library raises at line 60 the call ends there: nothing has
  been added to the scene yet (line 88), and no label is made and nothing is played.
  Otherwise the call runs through the body.
\<close>

definition qubit_call :: "library \<Rightarrow> qubit_args \<Rightarrow> error + qubit_result" where
  "qubit_call lib a =
     (if rotvec (qubit lib a) = Inl LibraryError then Inl LibraryError
      else Inr (qubit lib a))"


section \<open>The scenes\<close>

datatype scene = X0 | X1 | X | Y0 | Y1 | Y | Z0 | Z1 | Z | H0 | H1 | H

definition Haxis :: vec3 where
  "Haxis = (1 / sqrt 2, 0, 1 / sqrt 2)"

definition call ::
  "real \<times> real \<Rightarrow> vec3 \<Rightarrow> real \<Rightarrow> bool \<Rightarrow> string \<Rightarrow> string \<Rightarrow> string option \<Rightarrow> qubit_args" where
  "call sp ax ang sb sn en ec =
     \<lparr> start_point = sp, rotate_axis = ax, rotate_angle = ang, show_basis = sb,
       start_name = sn, end_name = en, end_coef = ec \<rparr>"

text \<open>Lines 154-208: the calls of qubit that each scene's construct method makes.\<close>

fun construct :: "scene \<Rightarrow> qubit_args list" where
  "construct X0 = [call (0, 0) Xaxis 180 False (ket ''0'') (ket ''1'') None]"
| "construct X1 = [call (0, 180) Xaxis 180 False (ket ''1'') (ket ''0'') None]"
| "construct X = [call (45, 45) Xaxis 180 True (ket psi) (ket psi) None]"
| "construct Y0 = [call (0, 0) Yaxis 180 False (ket ''0'') (ket ''1'') (Some ''i'')]"
| "construct Y1 = [call (0, 180) Yaxis 180 False (ket ''1'') (ket ''0'') (Some ''-i'')]"
| "construct Y = [call (45, 45) Yaxis 180 True (ket psi) (ket psi) None]"
| "construct Z0 = [call (0, 0) Zaxis 180 False (ket ''0'') (ket ''0'') None]"
| "construct Z1 = [call (0, 180) Zaxis 180 False (ket ''1'') (ket ''1'') (Some ''-'')]"
| "construct Z = [call (45, 45) Zaxis 180 True (ket psi) (ket psi) None]"
| "construct H0 = [call (0, 0) Haxis 180 False (ket ''0'') (ket ''+'') None]"
| "construct H1 = [call (0, 180) Haxis 180 False (ket ''1'') (ket ''-'') None]"
| "construct H = [call (45, 45) Haxis 180 True (ket psi) (ket psi) None]"

text \<open>
  Two libraries for concrete runs.  Both return the rotation vector above for a matrix
  without not-a-number entries.  Given not-a-number entries, the first returns
  not-a-number entries and the second raises.
\<close>

definition example_library :: library where
  "example_library =
     \<lparr> from_matrix_as_rotvec =
         (\<lambda>m. case m of Inl e \<Rightarrow> Inl ZeroDivision | Inr m \<Rightarrow> Inr (rotvec_of_matrix m)),
       tex_width = (\<lambda>s. 1) \<rparr>"

definition strict_library :: library where
  "strict_library =
     \<lparr> from_matrix_as_rotvec =
         (\<lambda>m. case m of Inl e \<Rightarrow> Inl LibraryError | Inr m \<Rightarrow> Inr (rotvec_of_matrix m)),
       tex_width = (\<lambda>s. 1) \<rparr>"

section \<open>Properties\<close>

lemma sin_cos_sphere:
  "(cos a * sin b) * (cos a * sin b) + (sin a * sin b) * (sin a * sin b) + cos b * cos b = (1::real)"
proof -
  have "(cos a * sin b) * (cos a * sin b) + (sin a * sin b) * (sin a * sin b) + cos b * cos b
        = (cos a * cos a + sin a * sin a) * (sin b * sin b) + cos b * cos b"
    by algebra
  also have "\<dots> = sin b * sin b + cos b * cos b"
    by (simp only: sin_cos_squared_add3 mult_1)
  also have "\<dots> = 1"
    by (simp add: add.commute)
  finally show ?thesis .
qed

text \<open>
  C4: for every pair of angles, the start point computed by qubit has Euclidean norm 1.
\<close>

theorem qubit_point_on_unit_sphere:
  "linalg_norm (qubit_point (ph, th)) = 1"
  unfolding linalg_norm_def qubit_point_def
  by (simp add: sin_cos_sphere)

subsection \<open>Angles, axes and rotations\<close>

lemma deg180: "180 * DEGREES = pi" by (simp add: DEGREES_def)
lemma norm_Xaxis: "linalg_norm Xaxis = 1" by (simp add: linalg_norm_def Xaxis_def)
lemma norm_Yaxis: "linalg_norm Yaxis = 1" by (simp add: linalg_norm_def Yaxis_def)
lemma norm_Zaxis: "linalg_norm Zaxis = 1" by (simp add: linalg_norm_def Zaxis_def)
lemma norm_Haxis: "linalg_norm Haxis = 1" by (simp add: linalg_norm_def Haxis_def)

lemma point_00: "qubit_point (0, 0) = (0, 0, 1)" by (simp add: qubit_point_def)
lemma point_0_180: "qubit_point (0, 180) = (0, 0, -1)" by (simp add: qubit_point_def deg180)

lemma vdiv_one: "vdiv v 1 = v" by (cases v) simp

lemma rotate_unit:
  "linalg_norm k = 1 \<Longrightarrow> rotate_about_origin a k p =
     vadd (vadd (smul (cos a) p) (smul (sin a) (cross k p))) (smul ((1 - cos a) * dot k p) k)"
  by (simp add: rotate_about_origin_def vdiv_one)

lemma rotate_pi:
  "linalg_norm k = 1 \<Longrightarrow> rotate_about_origin pi k p = vsub (smul (2 * dot k p) k) p"
  by (cases k, cases p) (simp add: rotate_unit)

lemma rotate_smul:
  "rotate_about_origin t k (smul c p) = smul c (rotate_about_origin t k p)"
  by (cases k, cases p) (simp add: rotate_about_origin_def Let_def algebra_simps)

subsection \<open>The scenes' arguments\<close>

text \<open>
  C6: every scene's construct makes exactly one call of qubit; every call turns by 180
  degrees; the axis is (1,0,0) in the X scenes, (0,1,0) in the Y scenes, (0,0,1) in the Z
  scenes and (1/sqrt 2, 0, 1/sqrt 2) in the H scenes; every axis has norm 1.
\<close>

theorem scenes_axes:
  "(\<forall>s. length (construct s) = 1)
   \<and> (\<forall>s. map rotate_angle (construct s) = [180])
   \<and> map rotate_axis (construct X0) = [(1, 0, 0)]
   \<and> map rotate_axis (construct X1) = [(1, 0, 0)]
   \<and> map rotate_axis (construct X) = [(1, 0, 0)]
   \<and> map rotate_axis (construct Y0) = [(0, 1, 0)]
   \<and> map rotate_axis (construct Y1) = [(0, 1, 0)]
   \<and> map rotate_axis (construct Y) = [(0, 1, 0)]
   \<and> map rotate_axis (construct Z0) = [(0, 0, 1)]
   \<and> map rotate_axis (construct Z1) = [(0, 0, 1)]
   \<and> map rotate_axis (construct Z) = [(0, 0, 1)]
   \<and> map rotate_axis (construct H0) = [(1 / sqrt 2, 0, 1 / sqrt 2)]
   \<and> map rotate_axis (construct H1) = [(1 / sqrt 2, 0, 1 / sqrt 2)]
   \<and> map rotate_axis (construct H) = [(1 / sqrt 2, 0, 1 / sqrt 2)]
   \<and> (\<forall>s. map (\<lambda>a. linalg_norm (rotate_axis a)) (construct s) = [1])"
proof -
  have len: "\<forall>s. length (construct s) = 1"
  proof
    fix s show "length (construct s) = 1" by (cases s) simp_all
  qed
  have ang: "\<forall>s. map rotate_angle (construct s) = [180]"
  proof
    fix s show "map rotate_angle (construct s) = [180]" by (cases s) (simp_all add: call_def)
  qed
  have nrm: "\<forall>s. map (\<lambda>a. linalg_norm (rotate_axis a)) (construct s) = [1]"
  proof
    fix s show "map (\<lambda>a. linalg_norm (rotate_axis a)) (construct s) = [1]"
      by (cases s) (simp_all add: call_def norm_Xaxis norm_Yaxis norm_Zaxis norm_Haxis)
  qed
  have ax: "map rotate_axis (construct X0) = [(1, 0, 0)]"
    "map rotate_axis (construct X1) = [(1, 0, 0)]"
    "map rotate_axis (construct X) = [(1, 0, 0)]"
    "map rotate_axis (construct Y0) = [(0, 1, 0)]"
    "map rotate_axis (construct Y1) = [(0, 1, 0)]"
    "map rotate_axis (construct Y) = [(0, 1, 0)]"
    "map rotate_axis (construct Z0) = [(0, 0, 1)]"
    "map rotate_axis (construct Z1) = [(0, 0, 1)]"
    "map rotate_axis (construct Z) = [(0, 0, 1)]"
    "map rotate_axis (construct H0) = [(1 / sqrt 2, 0, 1 / sqrt 2)]"
    "map rotate_axis (construct H1) = [(1 / sqrt 2, 0, 1 / sqrt 2)]"
    "map rotate_axis (construct H) = [(1 / sqrt 2, 0, 1 / sqrt 2)]"
    by (simp_all add: call_def Xaxis_def Yaxis_def Zaxis_def Haxis_def)
  from len ang nrm ax show ?thesis by blast
qed

subsection \<open>Where the vector and the labels end\<close>

text \<open>
  C1: in each basis scene the start point, turned by the scene's angle about the scene's
  axis, is the point of the state that the end label names: X0 and Y0 take (0,0,1) to
  (0,0,-1) with end label ket 1, X1 and Y1 take (0,0,-1) to (0,0,1) with end label ket 0,
  Z0 and Z1 leave their pole where it is, H0 takes (0,0,1) to (1,0,0) with end label
  ket +, and H1 takes (0,0,-1) to (-1,0,0) with end label ket -.
\<close>

theorem basis_scenes_end_points:
  "map (\<lambda>a. (point (qubit lib a), snd (vec (qubit lib a) (rot_end (qubit lib a))), end_name a))
       (construct X0) = [((0, 0, 1), (0, 0, -1), ket ''1'')]
   \<and> map (\<lambda>a. (point (qubit lib a), snd (vec (qubit lib a) (rot_end (qubit lib a))), end_name a))
       (construct Y0) = [((0, 0, 1), (0, 0, -1), ket ''1'')]
   \<and> map (\<lambda>a. (point (qubit lib a), snd (vec (qubit lib a) (rot_end (qubit lib a))), end_name a))
       (construct X1) = [((0, 0, -1), (0, 0, 1), ket ''0'')]
   \<and> map (\<lambda>a. (point (qubit lib a), snd (vec (qubit lib a) (rot_end (qubit lib a))), end_name a))
       (construct Y1) = [((0, 0, -1), (0, 0, 1), ket ''0'')]
   \<and> map (\<lambda>a. (point (qubit lib a), snd (vec (qubit lib a) (rot_end (qubit lib a))), end_name a))
       (construct Z0) = [((0, 0, 1), (0, 0, 1), ket ''0'')]
   \<and> map (\<lambda>a. (point (qubit lib a), snd (vec (qubit lib a) (rot_end (qubit lib a))), end_name a))
       (construct Z1) = [((0, 0, -1), (0, 0, -1), ket ''1'')]
   \<and> map (\<lambda>a. (point (qubit lib a), snd (vec (qubit lib a) (rot_end (qubit lib a))), end_name a))
       (construct H0) = [((0, 0, 1), (1, 0, 0), ket ''+'')]
   \<and> map (\<lambda>a. (point (qubit lib a), snd (vec (qubit lib a) (rot_end (qubit lib a))), end_name a))
       (construct H1) = [((0, 0, -1), (-1, 0, 0), ket ''-'')]"
proof -
  have x: "rotate_about_origin pi Xaxis (0, 0, c) = (0, 0, - c)" for c
    by (simp add: rotate_pi norm_Xaxis) (simp add: Xaxis_def)
  have y: "rotate_about_origin pi Yaxis (0, 0, c) = (0, 0, - c)" for c
    by (simp add: rotate_pi norm_Yaxis) (simp add: Yaxis_def)
  have z: "rotate_about_origin pi Zaxis (0, 0, c) = (0, 0, c)" for c
    by (simp add: rotate_pi norm_Zaxis) (simp add: Zaxis_def)
  have h: "rotate_about_origin pi Haxis (0, 0, c) = (c, 0, 0)" for c
    by (simp add: rotate_pi norm_Haxis) (simp add: Haxis_def)
  show ?thesis
    using x [of 1] x [of "-1"] y [of 1] y [of "-1"] z [of 1] z [of "-1"] h [of 1] h [of "-1"]
    by (simp add: qubit_def Let_def call_def qubit_vec_def point_00 point_0_180 deg180)
qed

text \<open>
  C5: when the tracker reaches the rotation angle, the arrow's end is the start point
  turned by that angle (degrees) about the axis, the moving label is at 1.25 times that
  point, and this is where the end label was put.  It holds for every axis, the unit
  axes among them.
\<close>

theorem label_swap_at_vector_end:
  "rot_end (qubit lib a) = rotate_angle a
   \<and> snd (vec (qubit lib a) (rot_end (qubit lib a)))
     = rotate_about_origin (rotate_angle a * DEGREES) (rotate_axis a) (point (qubit lib a))
   \<and> state_psi (qubit lib a) (rot_end (qubit lib a))
     = smul 1.25 (snd (vec (qubit lib a) (rot_end (qubit lib a))))
   \<and> state_psi (qubit lib a) (rot_end (qubit lib a)) = state_psi_end (qubit lib a)"
  by (simp add: qubit_def Let_def qubit_vec_def qubit_state_psi_def qubit_state_psi_end_def
        rotate_smul)

subsection \<open>Vector algebra\<close>

lemma dot_self_nonneg: "0 \<le> dot v v" by (cases v) simp

lemma dot_self_zero: "dot v v = 0 \<longleftrightarrow> v = (0, 0, 0)"
proof (cases v)
  case (fields a b c)
  have "a * a + b * b + c * c = 0 \<longleftrightarrow> a = 0 \<and> b = 0 \<and> c = 0"
    by (auto simp: add_nonneg_eq_0_iff)
  with fields show ?thesis by simp
qed

lemma norm_zero: "linalg_norm v = 0 \<longleftrightarrow> v = (0, 0, 0)"
  by (simp add: linalg_norm_def dot_self_zero)

lemma norm_one: "linalg_norm v = 1 \<longleftrightarrow> dot v v = 1"
  by (simp add: linalg_norm_def)

lemma norm_sq: "linalg_norm v * linalg_norm v = dot v v"
  by (simp add: linalg_norm_def dot_self_nonneg)

lemma dot_self_nz: "linalg_norm v \<noteq> 0 \<Longrightarrow> dot v v \<noteq> 0"
  by (simp add: linalg_norm_def)

lemma dot_cross_left: "dot a (cross a b) = 0"
  by (cases a, cases b) (simp add: algebra_simps)

lemma dot_cross_right: "dot b (cross a b) = 0"
  by (cases a, cases b) (simp add: algebra_simps)

lemma dot_commute: "dot a b = dot b a"
  by (cases a, cases b) (simp add: algebra_simps)

lemma lagrange: "dot (cross a b) (cross a b) = dot a a * dot b b - dot a b * dot a b"
  by (cases a, cases b) (simp add: algebra_simps)

lemma triple_frame: "dot x (cross (cross z x) z) = dot z z * dot x x - dot x z * dot x z"
  by (cases x, cases z) (simp add: algebra_simps)

lemma dot_vdiv: "dot (vdiv a c) b = dot a b / c"
  by (cases a, cases b) (simp add: add_divide_distrib)

lemma dot_vdiv2: "dot b (vdiv a c) = dot b a / c"
  by (cases a, cases b) (simp add: add_divide_distrib)

lemma dot_vsub: "dot (vsub a b) c = dot a c - dot b c"
  by (cases a, cases b, cases c) (simp add: algebra_simps)

lemma dot_smul: "dot (smul k a) c = k * dot a c"
  by (cases a, cases c) (simp add: algebra_simps)

lemma dot_x0_z: "dot z z = 1 \<Longrightarrow> dot (qubit_x0 p z) z = 0"
  by (simp add: qubit_x0_def dot_vsub dot_smul)

lemma rodrigues_inverse:
  fixes c s :: real
  assumes cs: "c * c + s * s = 1" and u: "dot u u = 1"
  shows "vadd (vadd (smul c (vadd (vadd (smul c v) (smul s (cross u v))) (smul ((1 - c) * dot u v) u)))
                    (smul (- s) (cross u (vadd (vadd (smul c v) (smul s (cross u v))) (smul ((1 - c) * dot u v) u)))))
              (smul ((1 - c) * dot u (vadd (vadd (smul c v) (smul s (cross u v))) (smul ((1 - c) * dot u v) u))) u) = v"
proof (cases u)
  case U: (fields u1 u2 u3)
  obtain v1 v2 v3 where V: "v = (v1, v2, v3)" by (cases v)
  from u U have uu: "u1 * u1 + u2 * u2 + u3 * u3 = 1" by simp
  show ?thesis
    unfolding U V using cs uu apply simp
    apply (intro conjI)
    apply algebra+
    done
qed


lemma rotate_inverse:
  "rotate_about_origin (- t) k (rotate_about_origin t k v) = v"
proof (cases "linalg_norm k = 0")
  case True
  then show ?thesis by (simp add: rotate_about_origin_def)
next
  case False
  have "dot (vdiv k (linalg_norm k)) (vdiv k (linalg_norm k)) = dot k k / (linalg_norm k * linalg_norm k)"
    by (simp add: dot_vdiv dot_vdiv2)
  also have "\<dots> = 1" using dot_self_nz [OF False] by (simp add: norm_sq)
  finally have u: "dot (vdiv k (linalg_norm k)) (vdiv k (linalg_norm k)) = 1" .
  have cs: "cos t * cos t + sin t * sin t = 1" by simp
  show ?thesis
    using False rodrigues_inverse [OF cs u, of v]
    by (simp add: rotate_about_origin_def Let_def)
qed

lemma vsub_zero_iff: "vsub a b = (0, 0, 0) \<longleftrightarrow> a = b"
  by (cases a, cases b) auto

lemma dot_vadd_right: "dot a (vadd b c) = dot a b + dot a c"
  by (cases a, cases b, cases c) (simp add: algebra_simps)

lemma dot_smul_right: "dot a (smul k b) = k * dot a b"
  by (cases a, cases b) (simp add: algebra_simps)

lemma cross_x0: "cross z (qubit_x0 p z) = cross z p"
  by (cases z, cases p) (simp add: qubit_x0_def algebra_simps)

lemma cross_vdiv: "cross z (vdiv v c) = vdiv (cross z v) c"
  by (cases z, cases v) (simp add: diff_divide_distrib)

lemma smul_vdiv: "n \<noteq> 0 \<Longrightarrow> smul (n * c) (vdiv v n) = smul c v"
  by (cases v) simp

lemma norm_smul: "linalg_norm (smul c v) = \<bar>c\<bar> * linalg_norm v"
proof -
  have "dot (smul c v) (smul c v) = (c * c) * dot v v"
    by (simp add: dot_smul dot_smul_right)
  then show ?thesis
    by (simp add: linalg_norm_def real_sqrt_mult)
qed

lemma vdiv_smul: "c \<noteq> 0 \<Longrightarrow> vdiv (smul c v) c = v"
  by (cases v) simp

subsection \<open>The frame of the arc\<close>

lemma qubit_frame_facts:
  assumes zz: "dot z z = 1" and nz: "qubit_r p z \<noteq> 0"
  defines "x \<equiv> vdiv (qubit_x0 p z) (qubit_r p z)"
  defines "y \<equiv> cross z x"
  shows "qubit_frame p z = Inr (x, y, z)"
    and "dot x x = 1" and "dot y y = 1" and "dot x y = 0" and "dot x z = 0" and "dot y z = 0"
    and "det3 (x, y, z) = 1"
proof -
  show fr: "qubit_frame p z = Inr (x, y, z)"
    using nz by (simp add: qubit_frame_def Let_def x_def y_def qubit_r_def)
  show xx: "dot x x = 1"
  proof -
    have "dot x x = dot (qubit_x0 p z) (qubit_x0 p z) / (qubit_r p z * qubit_r p z)"
      by (simp add: x_def dot_vdiv dot_vdiv2)
    also have "\<dots> = 1"
      using dot_self_nz [of "qubit_x0 p z"] nz by (simp add: qubit_r_def norm_sq)
    finally show ?thesis .
  qed
  show xz: "dot x z = 0"
    using zz by (simp add: x_def dot_vdiv dot_x0_z)
  show "dot y z = 0"
    using dot_cross_left [of z x] by (simp add: y_def dot_commute)
  show "dot x y = 0"
    using dot_cross_right [of x z] by (simp add: y_def)
  show "dot y y = 1"
    using xx zz xz by (simp add: y_def lagrange dot_commute [of z x])
  show "det3 (x, y, z) = 1"
    using xx zz xz by (simp add: y_def triple_frame)
qed


text \<open>
  C9: when the axis z has norm 1 and r is not zero, the frame (x, y, z) that qubit
  computes is right-handed and orthonormal: the three vectors have norm 1, they are
  pairwise orthogonal, y is the cross product of z and x, and the matrix with the rows
  x, y, z is a rotation matrix, which is what from_matrix expects.
\<close>

theorem frame_right_handed_orthonormal:
  assumes unit: "linalg_norm (rotate_axis a) = 1"
      and nz: "r (qubit lib a) \<noteq> 0"
  shows "\<exists>x y z. frame (qubit lib a) = Inr (x, y, z)
           \<and> z = rotate_axis a
           \<and> x = vdiv (qubit_x0 (point (qubit lib a)) z) (r (qubit lib a))
           \<and> linalg_norm x = 1 \<and> linalg_norm y = 1 \<and> linalg_norm z = 1
           \<and> dot x y = 0 \<and> dot x z = 0 \<and> dot y z = 0
           \<and> y = cross z x
           \<and> is_rotation_matrix (x, y, z)"
proof -
  define p where "p = qubit_point (start_point a)"
  define z where "z = rotate_axis a"
  define x where "x = vdiv (qubit_x0 p z) (qubit_r p z)"
  define y where "y = cross z x"
  have zz: "dot z z = 1" using unit by (simp add: norm_one z_def)
  have n0: "qubit_r p z \<noteq> 0" using nz by (simp add: qubit_def Let_def p_def z_def)
  note f = qubit_frame_facts [OF zz n0, folded x_def y_def]
  have fr: "frame (qubit lib a) = Inr (x, y, z)"
    using f(1) by (simp add: qubit_def Let_def p_def z_def)
  have xdef: "x = vdiv (qubit_x0 (point (qubit lib a)) z) (r (qubit lib a))"
    by (simp add: x_def qubit_def Let_def p_def z_def)
  have "frame (qubit lib a) = Inr (x, y, z) \<and> z = rotate_axis a
        \<and> x = vdiv (qubit_x0 (point (qubit lib a)) z) (r (qubit lib a))
        \<and> linalg_norm x = 1 \<and> linalg_norm y = 1 \<and> linalg_norm z = 1
        \<and> dot x y = 0 \<and> dot x z = 0 \<and> dot y z = 0 \<and> y = cross z x
        \<and> is_rotation_matrix (x, y, z)"
    using fr xdef f(2-7) zz by (simp add: norm_one z_def y_def)
  then show ?thesis by blast
qed

lemma x0_call: "qubit_x0 (0, 0, 1) Xaxis = (0, 0, 1)"
  by (simp add: qubit_x0_def Xaxis_def)

lemma r_x0_call: "qubit_r (0, 0, 1) Xaxis = 1"
  by (simp add: qubit_r_def x0_call linalg_norm_def)

theorem frame_right_handed_orthonormal_witness:
  "linalg_norm (rotate_axis (call (0, 0) Xaxis 180 False (ket ''0'') (ket ''1'') None)) = 1
   \<and> r (qubit example_library (call (0, 0) Xaxis 180 False (ket ''0'') (ket ''1'') None)) \<noteq> 0
   \<and> (\<exists>x y z. frame (qubit example_library (call (0, 0) Xaxis 180 False (ket ''0'') (ket ''1'') None))
                 = Inr (x, y, z)
         \<and> is_rotation_matrix (x, y, z))"
proof -
  let ?a = "call (0, 0) Xaxis 180 False (ket ''0'') (ket ''1'') None"
  have u: "linalg_norm (rotate_axis ?a) = 1"
    by (simp add: call_def linalg_norm_def Xaxis_def)
  have n: "r (qubit example_library ?a) \<noteq> 0"
    by (simp add: qubit_def Let_def call_def qubit_point_def r_x0_call)
  from frame_right_handed_orthonormal [OF u n] u n show ?thesis by blast
qed

subsection \<open>The order of the plays\<close>


subsection \<open>The arc and the tip of the vector\<close>

lemma arc_point_is_frame_image:
  assumes zz: "dot z z = 1" and nz: "qubit_r p z \<noteq> 0"
  defines "x \<equiv> vdiv (qubit_x0 p z) (qubit_r p z)"
  defines "y \<equiv> cross z x"
  shows "mat_apply (x, y, z) (rotate_about_origin t z p)
           = shift (arc_end (qubit_r p z) 0 t) (0, 0, dot p z)"
proof -
  note f = qubit_frame_facts [OF zz nz, folded x_def y_def]
  define n where "n = qubit_r p z"
  define q where "q = vadd (vadd (smul (n * cos t) x) (smul (n * sin t) y)) (smul (dot p z) z)"
  have n0: "n \<noteq> 0" using nz by (simp add: n_def)
  have unit: "linalg_norm z = 1" using zz by (simp add: norm_one)
  have y': "y = vdiv (cross z p) n"
    by (simp add: y_def x_def cross_vdiv cross_x0 n_def)
  have q1: "smul (n * cos t) x = smul (cos t) (qubit_x0 p z)"
    using n0 by (simp add: x_def n_def [symmetric] smul_vdiv)
  have q2: "smul (n * sin t) y = smul (sin t) (cross z p)"
    using n0 by (simp add: y' smul_vdiv)
  have rot: "rotate_about_origin t z p = q"
    unfolding q_def q1 q2 using unit
    by (cases z, cases p) (simp add: rotate_unit qubit_x0_def algebra_simps)
  have "mat_apply (x, y, z) q = (n * cos t, n * sin t, dot p z)"
    using f(2-6) zz
    by (simp add: q_def dot_vadd_right dot_smul_right dot_commute [of y x] dot_commute [of z x]
          dot_commute [of z y])
  then show ?thesis
    by (simp add: rot arc_end_def shift_def n_def)
qed

subsection \<open>Every rotation matrix has a rotation vector\<close>

text \<open>
  The vector that \<open>rotvec_of_matrix\<close> computes represents every rotation matrix, so
  the property asked of the library can be met: away from the symmetric matrices the
  vector is along the axial vector of the matrix and as long as the arc cosine of
  (trace - 1) / 2; the identity has the zero vector; a half turn has a row of the matrix
  plus the identity, scaled to the length pi.
\<close>

lemma adjugate_identity:
  "vadd (vadd (smul (dot r1 v) (cross r2 r3)) (smul (dot r2 v) (cross r3 r1)))
        (smul (dot r3 v) (cross r1 r2)) = smul (dot r1 (cross r2 r3)) v"
  by (cases r1, cases r2, cases r3, cases v) (simp add: algebra_simps)

lemma smul_zero: "smul 0 v = (0, 0, 0)" by (cases v) simp
lemma smul_one: "smul 1 v = v" by (cases v) simp
lemma vadd_zero_right: "vadd v (0, 0, 0) = v" by (cases v) simp
lemma vadd_zero_left: "vadd (0, 0, 0) v = v" by (cases v) simp

lemma rotation_cofactors:
  assumes "is_rotation_matrix (r1, r2, r3)"
  shows "cross r2 r3 = r1" and "cross r3 r1 = r2" and "cross r1 r2 = r3"
proof -
  from assms have o: "dot r1 r1 = 1" "dot r2 r2 = 1" "dot r3 r3 = 1"
    "dot r1 r2 = 0" "dot r1 r3 = 0" "dot r2 r3 = 0" and d: "dot r1 (cross r2 r3) = 1"
    by simp_all
  show "cross r2 r3 = r1"
    using adjugate_identity [of r1 r1 r2 r3] o d
    by (simp add: dot_commute [of r2 r1] dot_commute [of r3 r1] smul_zero smul_one vadd_zero_right)
  show "cross r3 r1 = r2"
    using adjugate_identity [of r1 r2 r2 r3] o d
    by (simp add: dot_commute [of r3 r2] smul_zero smul_one vadd_zero_right vadd_zero_left)
  show "cross r1 r2 = r3"
    using adjugate_identity [of r1 r3 r2 r3] o d
    by (simp add: smul_zero smul_one vadd_zero_right vadd_zero_left)
qed

text \<open>The entries of a rotation matrix: its rows are orthonormal and each entry is its cofactor.\<close>

lemma rotation_entries:
  fixes a b c d e f g h i :: real
  assumes "is_rotation_matrix ((a, b, c), (d, e, f), (g, h, i))"
  shows "a * a + b * b + c * c = 1" "d * d + e * e + f * f = 1" "g * g + h * h + i * i = 1"
    "a * d + b * e + c * f = 0" "a * g + b * h + c * i = 0" "d * g + e * h + f * i = 0"
    "e * i - f * h = a" "f * g - d * i = b" "d * h - e * g = c"
    "h * c - i * b = d" "i * a - g * c = e" "g * b - h * a = f"
    "b * f - c * e = g" "c * d - a * f = h" "a * e - b * d = i"
proof -
  from assms show "a * a + b * b + c * c = 1" "d * d + e * e + f * f = 1" "g * g + h * h + i * i = 1"
    "a * d + b * e + c * f = 0" "a * g + b * h + c * i = 0" "d * g + e * h + f * i = 0"
    by simp_all
  from rotation_cofactors [OF assms]
  show "e * i - f * h = a" "f * g - d * i = b" "d * h - e * g = c"
    "h * c - i * b = d" "i * a - g * c = e" "g * b - h * a = f"
    "b * f - c * e = g" "c * d - a * f = h" "a * e - b * d = i"
    by simp_all
qed

lemma rotation_columns:
  fixes a b c d e f g h i :: real
  assumes "is_rotation_matrix ((a, b, c), (d, e, f), (g, h, i))"
  shows "a * a + d * d + g * g = 1" "b * b + e * e + h * h = 1" "c * c + f * f + i * i = 1"
proof -
  note r = rotation_entries [OF assms]
  have "a * a + d * d + g * g = a * (e * i - f * h) + d * (h * c - i * b) + g * (b * f - c * e)"
    by (simp only: r)
  also have "\<dots> = a * (e * i - f * h) + b * (f * g - d * i) + c * (d * h - e * g)"
    by algebra
  also have "\<dots> = a * a + b * b + c * c" by (simp only: r)
  finally show "a * a + d * d + g * g = 1" by (simp only: r)
  have "b * b + e * e + h * h = b * (f * g - d * i) + e * (i * a - g * c) + h * (c * d - a * f)"
    by (simp only: r)
  also have "\<dots> = d * (h * c - i * b) + e * (i * a - g * c) + f * (g * b - h * a)"
    by algebra
  also have "\<dots> = d * d + e * e + f * f" by (simp only: r)
  finally show "b * b + e * e + h * h = 1" by (simp only: r)
  have "c * c + f * f + i * i = c * (d * h - e * g) + f * (g * b - h * a) + i * (a * e - b * d)"
    by (simp only: r)
  also have "\<dots> = g * (b * f - c * e) + h * (c * d - a * f) + i * (a * e - b * d)"
    by algebra
  also have "\<dots> = g * g + h * h + i * i" by (simp only: r)
  finally show "c * c + f * f + i * i = 1" by (simp only: r)
qed


lemma rotation_columns_orth:
  fixes a b c d e f g h i :: real
  assumes "is_rotation_matrix ((a, b, c), (d, e, f), (g, h, i))"
  shows "a * b + d * e + g * h = 0" "a * c + d * f + g * i = 0" "b * c + e * f + h * i = 0"
proof -
  note r = rotation_entries [OF assms]
  have "a * b + d * e + g * h = a * (f * g - d * i) + d * (i * a - g * c) + g * (c * d - a * f)"
    by (simp only: r)
  also have "\<dots> = 0" by algebra
  finally show "a * b + d * e + g * h = 0" .
  have "a * c + d * f + g * i = a * (d * h - e * g) + d * (g * b - h * a) + g * (a * e - b * d)"
    by (simp only: r)
  also have "\<dots> = 0" by algebra
  finally show "a * c + d * f + g * i = 0" .
  have "b * c + e * f + h * i = b * (d * h - e * g) + e * (g * b - h * a) + h * (a * e - b * d)"
    by (simp only: r)
  also have "\<dots> = 0" by algebra
  finally show "b * c + e * f + h * i = 0" .
qed

lemma axial_norm:
  fixes a b c d e f g h i :: real
  assumes "is_rotation_matrix ((a, b, c), (d, e, f), (g, h, i))"
  shows "(h - f) * (h - f) + (c - g) * (c - g) + (d - b) * (d - b)
         = (3 - (a + e + i)) * (1 + (a + e + i))"
  using rotation_entries(1-3,7,11,15) [OF assms] by algebra

lemma axial_outer:
  fixes a b c d e f g h i :: real
  assumes "is_rotation_matrix ((a, b, c), (d, e, f), (g, h, i))"
  shows "(h - f) * (h - f) = (1 + (a + e + i)) * (a + a - (a + e + i - 1))"
    and "(c - g) * (c - g) = (1 + (a + e + i)) * (e + e - (a + e + i - 1))"
    and "(d - b) * (d - b) = (1 + (a + e + i)) * (i + i - (a + e + i - 1))"
    and "(h - f) * (c - g) = (1 + (a + e + i)) * (b + d)"
    and "(h - f) * (d - b) = (1 + (a + e + i)) * (c + g)"
    and "(c - g) * (d - b) = (1 + (a + e + i)) * (f + h)"
proof -
  note r = rotation_entries [OF assms] and k = rotation_columns [OF assms]
    and ko = rotation_columns_orth [OF assms]
  show "(h - f) * (h - f) = (1 + (a + e + i)) * (a + a - (a + e + i - 1))"
    using r(2,3,7) k(1) by algebra
  show "(c - g) * (c - g) = (1 + (a + e + i)) * (e + e - (a + e + i - 1))"
    using r(1,3,11) k(2) by algebra
  show "(d - b) * (d - b) = (1 + (a + e + i)) * (i + i - (a + e + i - 1))"
    using r(1,2,15) k(3) by algebra
  show "(h - f) * (c - g) = (1 + (a + e + i)) * (b + d)"
    using r(4,8,10) ko(1) by algebra
  show "(h - f) * (d - b) = (1 + (a + e + i)) * (c + g)"
    using r(5,9,13) ko(2) by algebra
  show "(c - g) * (d - b) = (1 + (a + e + i)) * (f + h)"
    using r(6,12,14) ko(3) by algebra
qed

lemma half_angle_component:
  fixes s tr co a b c d g v1 v2 v3 w1 w2 w3 :: real
  assumes s: "s \<noteq> 0" and t1: "1 + tr \<noteq> 0" and t3: "3 - tr \<noteq> 0"
      and k: "4 * (s * s) = (3 - tr) * (1 + tr)"
      and co: "co = (tr - 1) / 2"
      and w11: "w1 * w1 = (1 + tr) * (a + a - (tr - 1))"
      and w12: "w1 * w2 = (1 + tr) * (b + d)"
      and w13: "w1 * w3 = (1 + tr) * (c + g)"
      and w2: "w2 = c - g" and w3: "w3 = d - b"
  shows "co * v1 + s * (w2 / (2 * s) * v3 - w3 / (2 * s) * v2)
           + (1 - co) * (w1 / (2 * s) * v1 + w2 / (2 * s) * v2 + w3 / (2 * s) * v3) * (w1 / (2 * s))
         = a * v1 + b * v2 + c * v3"
proof -
  define Q where "Q = (a + a - (tr - 1)) * v1 + (b + d) * v2 + (c + g) * v3"
  have two: "s * (w2 / (2 * s) * v3 - w3 / (2 * s) * v2) = (w2 * v3 - w3 * v2) / 2"
    using s by (simp add: field_simps)
  have "(w1 * v1 + w2 * v2 + w3 * v3) * w1 = (w1 * w1) * v1 + (w1 * w2) * v2 + (w1 * w3) * v3"
    by algebra
  also have "\<dots> = (1 + tr) * Q"
    unfolding w11 w12 w13 Q_def by algebra
  finally have ww: "(w1 * v1 + w2 * v2 + w3 * v3) * w1 = (1 + tr) * Q" .
  have "(1 - co) * (w1 / (2 * s) * v1 + w2 / (2 * s) * v2 + w3 / (2 * s) * v3) * (w1 / (2 * s))
        = (1 - co) * ((w1 * v1 + w2 * v2 + w3 * v3) * w1) / (4 * (s * s))"
    using s by (simp add: field_simps)
  also have "\<dots> = ((3 - tr) / 2) * ((1 + tr) * Q) / ((3 - tr) * (1 + tr))"
    unfolding ww k co by (simp add: field_simps)
  also have "\<dots> = ((3 - tr) * (1 + tr)) * (Q / 2) / ((3 - tr) * (1 + tr))"
    by (simp add: mult.assoc mult.left_commute)
  also have "\<dots> = Q / 2"
    using t1 t3 by (simp only: nonzero_mult_div_cancel_left mult_eq_0_iff de_Morgan_disj simp_thms)
  finally have three:
    "(1 - co) * (w1 / (2 * s) * v1 + w2 / (2 * s) * v2 + w3 / (2 * s) * v3) * (w1 / (2 * s)) = Q / 2" .
  show ?thesis
    unfolding two three unfolding co Q_def w2 w3 by (simp add: field_simps)
qed


lemma rodrigues_triple:
  "vadd (vadd (smul co (v1, v2, v3)) (smul s (cross (k1, k2, k3) (v1, v2, v3))))
        (smul ((1 - co) * dot (k1, k2, k3) (v1, v2, v3)) (k1, k2, k3))
   = (co * v1 + s * (k2 * v3 - k3 * v2) + (1 - co) * (k1 * v1 + k2 * v2 + k3 * v3) * k1,
      co * v2 + s * (k3 * v1 - k1 * v3) + (1 - co) * (k1 * v1 + k2 * v2 + k3 * v3) * k2,
      co * v3 + s * (k1 * v2 - k2 * v1) + (1 - co) * (k1 * v1 + k2 * v2 + k3 * v3) * k3)"
  by simp

lemma norm_nonneg: "0 \<le> linalg_norm v"
  by (simp add: linalg_norm_def dot_self_nonneg)

lemma rotvec_generic:
  fixes a b c d e f g h i :: real
  assumes R: "is_rotation_matrix ((a, b, c), (d, e, f), (g, h, i))"
      and nz: "(h - f, c - g, d - b) \<noteq> (0, 0, 0)"
  shows "rotvec_represents
           (smul (arccos ((a + e + i - 1) / 2) / linalg_norm (h - f, c - g, d - b))
                 (h - f, c - g, d - b))
           ((a, b, c), (d, e, f), (g, h, i))"
proof -
  define tr where "tr = a + e + i"
  define w :: vec3 where "w = (h - f, c - g, d - b)"
  define n where "n = linalg_norm w"
  have "w \<noteq> (0, 0, 0)" using nz by (simp add: w_def)
  then have "n \<noteq> 0" by (simp only: n_def norm_zero simp_thms)
  then have npos: "0 < n"
    using norm_nonneg [of w] by (simp add: n_def)
  have nn: "n * n = (3 - tr) * (1 + tr)"
    using axial_norm [OF R] by (simp add: n_def norm_sq w_def tr_def)
  have "0 < n * n" using npos by simp
  then have prod: "0 < (3 - tr) * (1 + tr)" by (simp only: nn)
  from prod have "(0 < 3 - tr \<and> 0 < 1 + tr) \<or> (3 - tr < 0 \<and> 1 + tr < 0)"
    by (simp only: zero_less_mult_iff)
  then have bounds: "- 1 < tr \<and> tr < 3" by linarith
  define co where "co = (tr - 1) / 2"
  have cb: "- 1 < co" "co < 1" using bounds by (simp_all add: co_def)
  define th where "th = arccos co"
  have thb: "0 < th" "th < pi" using arccos_lt_bounded [OF cb] by (simp_all add: th_def)
  have cth: "cos th = co" using cb by (simp add: th_def)
  define s where "s = sin th"
  have spos: "0 < s" using sin_gt_zero [OF thb] by (simp add: s_def)
  have "s * s + co * co = 1"
    using sin_cos_squared_add3 [of th] by (simp add: s_def cth add.commute)
  moreover have "2 * co = tr - 1" by (simp add: co_def)
  ultimately have s2: "4 * (s * s) = (3 - tr) * (1 + tr)"
    by algebra
  have "n\<^sup>2 = n * n" by (simp only: power2_eq_square)
  also have "\<dots> = 4 * (s * s)" by (simp only: nn s2)
  also have "\<dots> = (2 * s)\<^sup>2" by (simp add: power2_eq_square)
  finally have "n\<^sup>2 = (2 * s)\<^sup>2" .
  moreover have "0 \<le> n" "0 \<le> 2 * s" using npos spos by simp_all
  ultimately have n2s: "n = 2 * s" by (rule power2_eq_imp_eq)
  define rv where "rv = smul (th / n) w"
  have nrv: "linalg_norm rv = th"
    using npos thb by (simp add: rv_def norm_smul n_def [symmetric])
  have u: "vdiv rv th = ((h - f) / (2 * s), (c - g) / (2 * s), (d - b) / (2 * s))"
    using thb npos by (simp add: rv_def w_def n2s)
  note ax = axial_outer [OF R, folded tr_def]
  have t1: "1 + tr \<noteq> 0" and t3: "3 - tr \<noteq> 0" and s0: "s \<noteq> 0"
    using bounds spos by simp_all
  have a4: "(c - g) * (h - f) = (1 + tr) * (d + b)"
    using ax(4) by (simp only: mult.commute add.commute)
  have a5: "(d - b) * (h - f) = (1 + tr) * (g + c)"
    using ax(5) by (simp only: mult.commute add.commute)
  have a6: "(d - b) * (c - g) = (1 + tr) * (h + f)"
    using ax(6) by (simp only: mult.commute add.commute)
  have c1: "co * v1 + s * ((c - g) / (2 * s) * v3 - (d - b) / (2 * s) * v2)
           + (1 - co) * ((h - f) / (2 * s) * v1 + (c - g) / (2 * s) * v2 + (d - b) / (2 * s) * v3)
               * ((h - f) / (2 * s))
         = a * v1 + b * v2 + c * v3" for v1 v2 v3
    by (rule half_angle_component [OF s0 t1 t3 s2 co_def ax(1) ax(4) ax(5) refl refl])
  have c2: "co * v2 + s * ((d - b) / (2 * s) * v1 - (h - f) / (2 * s) * v3)
           + (1 - co) * ((c - g) / (2 * s) * v2 + (d - b) / (2 * s) * v3 + (h - f) / (2 * s) * v1)
               * ((c - g) / (2 * s))
         = e * v2 + f * v3 + d * v1" for v1 v2 v3
    by (rule half_angle_component [OF s0 t1 t3 s2 co_def ax(2) ax(6) a4 refl refl])
  have c3: "co * v3 + s * ((h - f) / (2 * s) * v2 - (c - g) / (2 * s) * v1)
           + (1 - co) * ((d - b) / (2 * s) * v3 + (h - f) / (2 * s) * v1 + (c - g) / (2 * s) * v2)
               * ((d - b) / (2 * s))
         = i * v3 + g * v1 + h * v2" for v1 v2 v3
    by (rule half_angle_component [OF s0 t1 t3 s2 co_def ax(3) a5 a6 refl refl])
  have "rotate_about_origin (linalg_norm rv) rv v = mat_apply ((a, b, c), (d, e, f), (g, h, i)) v" for v
  proof -
    obtain v1 v2 v3 where v: "v = (v1, v2, v3)" by (cases v)
    show ?thesis
    proof -
      let ?k = "((h - f) / (2 * s), (c - g) / (2 * s), (d - b) / (2 * s))"
      have "rotate_about_origin (linalg_norm rv) rv v
            = vadd (vadd (smul co (v1, v2, v3)) (smul s (cross ?k (v1, v2, v3))))
                   (smul ((1 - co) * dot ?k (v1, v2, v3)) ?k)"
        using thb(1)
        by (simp add: rotate_about_origin_def nrv Let_def u v cth s_def [symmetric]
              del: vadd.simps smul.simps cross.simps dot.simps)
      also have "\<dots> = (a * v1 + b * v2 + c * v3, d * v1 + e * v2 + f * v3, g * v1 + h * v2 + i * v3)"
        unfolding rodrigues_triple
        using c1 [of v1 v3 v2] c2 [of v2 v1 v3] c3 [of v3 v2 v1]
        by (simp only: ac_simps)
      finally show ?thesis by (simp add: v)
    qed
  qed
  then show ?thesis
    unfolding rotvec_represents_def rv_def th_def co_def tr_def n_def w_def by blast
qed

lemma entry_bounds:
  fixes a b c :: real
  assumes "a * a + b * b + c * c = 1"
  shows "- 1 \<le> a" and "a \<le> 1"
proof -
  have "a * a \<le> 1"
    using assms zero_le_square [of b] zero_le_square [of c] by linarith
  then have "a\<^sup>2 \<le> 1\<^sup>2" by (simp add: power2_eq_square)
  then have "\<bar>a\<bar> \<le> 1" by (simp only: abs_le_square_iff [symmetric] abs_one)
  then show "- 1 \<le> a" and "a \<le> 1" by linarith+
qed

lemma rotvec_identity:
  fixes a b c d e f g h i :: real
  assumes R: "is_rotation_matrix ((a, b, c), (d, e, f), (g, h, i))"
      and tr: "a + e + i = 3"
  shows "rotvec_represents (0, 0, 0) ((a, b, c), (d, e, f), (g, h, i))"
proof -
  note r = rotation_entries [OF R]
  have "a \<le> 1" "e \<le> 1" "i \<le> 1"
    using entry_bounds(2) [OF r(1)] entry_bounds(2) [of e d f] entry_bounds(2) [of i g h] r(2,3)
    by (simp_all add: add.commute add.left_commute)
  with tr have d1: "a = 1" "e = 1" "i = 1" by linarith+
  have "b * b + c * c = 0" using r(1) d1 by simp
  then have z1: "b = 0" "c = 0" by (simp_all add: add_nonneg_eq_0_iff)
  have "d * d + f * f = 0" using r(2) d1 by simp
  then have z2: "d = 0" "f = 0" by (simp_all add: add_nonneg_eq_0_iff)
  have "g * g + h * h = 0" using r(3) d1 by simp
  then have z3: "g = 0" "h = 0" by (simp_all add: add_nonneg_eq_0_iff)
  have "rotate_about_origin (linalg_norm (0, 0, 0)) (0, 0, 0) v
        = mat_apply ((a, b, c), (d, e, f), (g, h, i)) v" for v
    by (cases v) (simp add: rotate_about_origin_def linalg_norm_def d1 z1 z2 z3)
  then show ?thesis unfolding rotvec_represents_def by blast
qed

lemma rotvec_half_turn:
  fixes a b c e f i n q1 q2 q3 :: real
  assumes n: "0 < n" and tr: "a + e + i = - 1"
      and q: "q1 * q1 = n * (a + 1)" "q1 * q2 = n * b" "q1 * q3 = n * c"
             "q2 * q2 = n * (e + 1)" "q2 * q3 = n * f" "q3 * q3 = n * (i + 1)"
  shows "rotvec_represents (smul (pi / sqrt (2 * n)) (q1, q2, q3)) ((a, b, c), (b, e, f), (c, f, i))"
proof -
  define k where "k = sqrt (2 * n)"
  have kpos: "0 < k" using n by (simp add: k_def)
  have kk: "k * k = 2 * n" using n by (simp add: k_def)
  have "dot (q1, q2, q3) (q1, q2, q3) = n * (a + 1) + n * (e + 1) + n * (i + 1)"
    by (simp add: q)
  also have "\<dots> = n * (a + e + i + 3)" by (simp add: algebra_simps)
  also have "\<dots> = 2 * n" by (simp add: tr)
  finally have qq: "dot (q1, q2, q3) (q1, q2, q3) = 2 * n" .
  have nq: "linalg_norm (q1, q2, q3) = k"
    unfolding linalg_norm_def qq by (simp add: k_def)
  define rv where "rv = smul (pi / k) (q1, q2, q3)"
  have nrv: "linalg_norm rv = pi"
    using kpos by (simp add: rv_def norm_smul nq del: smul.simps)
  have u: "vdiv rv pi = (q1 / k, q2 / k, q3 / k)"
    by (simp add: rv_def)
  have row: "2 * (q1 / k * v1 + q2 / k * v2 + q3 / k * v3) * (x / k)
             = ((q1 * x) * v1 + (q2 * x) * v2 + (q3 * x) * v3) / n" for v1 v2 v3 x
  proof -
    have "2 * (q1 / k * v1 + q2 / k * v2 + q3 / k * v3) * (x / k)
          = 2 * ((q1 * x) * v1 + (q2 * x) * v2 + (q3 * x) * v3) / (k * k)"
      using kpos by (simp add: field_simps)
    also have "\<dots> = ((q1 * x) * v1 + (q2 * x) * v2 + (q3 * x) * v3) / n"
      unfolding kk using n by (simp add: field_simps)
    finally show ?thesis .
  qed
  have "rotate_about_origin (linalg_norm rv) rv v = mat_apply ((a, b, c), (b, e, f), (c, f, i)) v" for v
  proof -
    obtain v1 v2 v3 where v: "v = (v1, v2, v3)" by (cases v)
    have "rotate_about_origin (linalg_norm rv) rv v
          = (- v1 + 2 * (q1 / k * v1 + q2 / k * v2 + q3 / k * v3) * (q1 / k),
             - v2 + 2 * (q1 / k * v1 + q2 / k * v2 + q3 / k * v3) * (q2 / k),
             - v3 + 2 * (q1 / k * v1 + q2 / k * v2 + q3 / k * v3) * (q3 / k))"
      by (simp add: rotate_about_origin_def nrv Let_def u v)
    also have "\<dots> = (- v1 + ((q1 * q1) * v1 + (q2 * q1) * v2 + (q3 * q1) * v3) / n,
                       - v2 + ((q1 * q2) * v1 + (q2 * q2) * v2 + (q3 * q2) * v3) / n,
                       - v3 + ((q1 * q3) * v1 + (q2 * q3) * v2 + (q3 * q3) * v3) / n)"
      by (simp only: row)
    also have "\<dots> = (- v1 + (n * (a + 1) * v1 + n * b * v2 + n * c * v3) / n,
                       - v2 + (n * b * v1 + n * (e + 1) * v2 + n * f * v3) / n,
                       - v3 + (n * c * v1 + n * f * v2 + n * (i + 1) * v3) / n)"
      by (simp only: q mult.commute [of q2 q1] mult.commute [of q3 q1] mult.commute [of q3 q2])
    also have "\<dots> = (a * v1 + b * v2 + c * v3, b * v1 + e * v2 + f * v3, c * v1 + f * v2 + i * v3)"
      using n by (simp add: field_simps)
    finally show ?thesis by (simp add: v)
  qed
  then show ?thesis unfolding rotvec_represents_def rv_def k_def by blast
qed

lemma rotvec_symmetric:
  fixes a b c e f i :: real
  assumes R: "is_rotation_matrix ((a, b, c), (b, e, f), (c, f, i))"
      and tr: "a + e + i = - 1"
  shows "rotvec_represents
           (if a + 1 \<noteq> 0 then smul (pi / sqrt (2 * (a + 1))) (a + 1, b, c)
            else if e + 1 \<noteq> 0 then smul (pi / sqrt (2 * (e + 1))) (b, e + 1, f)
            else smul (pi / sqrt (2 * (i + 1))) (c, f, i + 1))
           ((a, b, c), (b, e, f), (c, f, i))"
proof -
  note r = rotation_entries [OF R]
  have bb: "b * b = (a + 1) * (e + 1)"
  proof -
    have "(a + 1) * (e + 1) = a * e + a + e + 1" by (simp add: algebra_simps)
    with r(15) tr show ?thesis by linarith
  qed
  have bc: "b * c = (a + 1) * f"
  proof -
    have "(a + 1) * f = a * f + f" by (simp add: algebra_simps)
    moreover have "c * b = b * c" by simp
    ultimately show ?thesis using r(14) by linarith
  qed
  have cc: "c * c = (a + 1) * (i + 1)"
  proof -
    have "(a + 1) * (i + 1) = i * a + a + i + 1" by (simp add: algebra_simps)
    with r(11) tr show ?thesis by linarith
  qed
  have bf: "b * f = (e + 1) * c"
  proof -
    have "(e + 1) * c = c * e + c" by (simp add: algebra_simps)
    with r(13) show ?thesis by linarith
  qed
  have ff: "f * f = (e + 1) * (i + 1)"
  proof -
    have "(e + 1) * (i + 1) = e * i + e + i + 1" by (simp add: algebra_simps)
    with r(7) tr show ?thesis by linarith
  qed
  have cf: "c * f = (i + 1) * b"
  proof -
    have "(i + 1) * b = b * i + b" by (simp add: algebra_simps)
    moreover have "f * c = c * f" by simp
    ultimately show ?thesis using r(8) by linarith
  qed
  have lo: "- 1 \<le> a" "- 1 \<le> e"
    using entry_bounds(1) [OF r(1)] entry_bounds(1) [of e b f] r(2)
    by (simp_all add: add.commute add.left_commute)
  consider (one) "a + 1 \<noteq> 0" | (two) "a + 1 = 0" "e + 1 \<noteq> 0" | (three) "a + 1 = 0" "e + 1 = 0"
    by blast
  then show ?thesis
  proof cases
    case one
    then have n: "0 < a + 1" using lo(1) by linarith
    have "rotvec_represents (smul (pi / sqrt (2 * (a + 1))) (a + 1, b, c))
            ((a, b, c), (b, e, f), (c, f, i))"
      by (rule rotvec_half_turn [OF n tr]) (simp_all add: bb bc cc mult.commute)
    with one show ?thesis by (simp only: simp_thms if_True if_False)
  next
    case two
    then have n: "0 < e + 1" using lo(2) by linarith
    have "rotvec_represents (smul (pi / sqrt (2 * (e + 1))) (b, e + 1, f))
            ((a, b, c), (b, e, f), (c, f, i))"
      by (rule rotvec_half_turn [OF n tr]) (simp_all add: bb bf ff mult.commute)
    with two show ?thesis by (simp only: simp_thms if_True if_False)
  next
    case three
    with tr have i1: "i + 1 = 2" by linarith
    then have n: "0 < i + 1" by simp
    have "rotvec_represents (smul (pi / sqrt (2 * (i + 1))) (c, f, i + 1))
            ((a, b, c), (b, e, f), (c, f, i))"
      by (rule rotvec_half_turn [OF n tr]) (simp_all add: cc cf ff mult.commute)
    with three show ?thesis by (simp only: simp_thms if_True if_False)
  qed
qed

lemma rotvec_of_matrix_represents:
  assumes "is_rotation_matrix m"
  shows "rotvec_represents (rotvec_of_matrix m) m"
proof -
  obtain a b c d e f g h i where m: "m = ((a, b, c), (d, e, f), (g, h, i))"
    by (metis prod_cases3)
  from assms have R: "is_rotation_matrix ((a, b, c), (d, e, f), (g, h, i))" by (simp only: m)
  show ?thesis
  proof (cases "(h - f, c - g, d - b) = (0, 0, 0)")
    case False
    from rotvec_generic [OF R False] False show ?thesis
      unfolding m rotvec_of_matrix.simps by (simp only: simp_thms if_True if_False)
  next
    case True
    then have sym: "h = f" "g = c" "d = b" by simp_all
    have "(3 - (a + e + i)) * (1 + (a + e + i)) = 0"
      using axial_norm [OF R] by (simp add: sym)
    then consider "a + e + i = 3" | "a + e + i \<noteq> 3" "a + e + i = - 1"
      by (auto simp: eq_neg_iff_add_eq_0 add.commute)
    then show ?thesis
    proof cases
      case 1
      from rotvec_identity [OF R 1] 1 True show ?thesis
        unfolding m rotvec_of_matrix.simps by (simp only: simp_thms if_True if_False)
    next
      case 2
      from rotvec_symmetric [OF R [unfolded sym] 2(2)] 2(1) show ?thesis
        unfolding m rotvec_of_matrix.simps sym by simp
    qed
  qed
qed

lemma libraries_correct:
  "as_rotvec_correct example_library" "as_rotvec_correct strict_library"
  by (simp_all add: as_rotvec_correct_def example_library_def strict_library_def
        rotvec_of_matrix_represents)

subsection \<open>The call of qubit\<close>






subsection \<open>The arc follows the tip of the vector\<close>

text \<open>
  C2: when the axis z has norm 1 and r is not zero (the start point is not parallel to
  z), and the library returns a rotation vector for every rotation matrix, the end of the
  arc is the tip of the turning vector: the frame is a rotation matrix, and for every
  angle t the end point of the arc of radius r and angle t, lifted to the height
  dot point z and turned by minus the length of the frame's rotation vector about that
  vector, is the start point turned by t about z; so the arc's end and the arrow's end
  agree at every value of the tracker, and the call runs through.
\<close>

theorem arc_follows_vector_tip:
  assumes unit: "linalg_norm (rotate_axis a) = 1"
      and nz: "r (qubit lib a) \<noteq> 0"
      and lib: "as_rotvec_correct lib"
  shows "\<exists>m rv. frame (qubit lib a) = Inr m
           \<and> is_rotation_matrix m
           \<and> rotvec (qubit lib a) = Inr rv
           \<and> rotvec_represents rv m
           \<and> angle (qubit lib a) = Inr (- linalg_norm rv)
           \<and> (\<forall>t. rotate_about_origin (- linalg_norm rv) rv
                     (shift (arc_end (r (qubit lib a)) 0 t)
                            (0, 0, dot (point (qubit lib a)) (rotate_axis a)))
                   = rotate_about_origin t (rotate_axis a) (point (qubit lib a)))
           \<and> (\<forall>rot. arc (qubit lib a) rot = Inr (snd (vec (qubit lib a) rot)))
           \<and> qubit_call lib a = Inr (qubit lib a)"
proof -
  define p where "p = qubit_point (start_point a)"
  define z where "z = rotate_axis a"
  define x where "x = vdiv (qubit_x0 p z) (qubit_r p z)"
  define m where "m = (x, cross z x, z)"
  have zz: "dot z z = 1" using unit by (simp add: z_def norm_one)
  have n0: "qubit_r p z \<noteq> 0" using nz by (simp add: qubit_def Let_def p_def z_def)
  note f = qubit_frame_facts [OF zz n0, folded x_def]
  have frm: "qubit_frame p z = Inr m" using f(1) by (simp add: m_def)
  have rm: "is_rotation_matrix m" using f(2-7) zz by (simp add: m_def)
  from lib rm obtain w where w: "from_matrix_as_rotvec lib (Inr m) = Inr w"
    and rv: "rotvec_represents w m"
    unfolding as_rotvec_correct_def by blast
  have rvv: "rotate_about_origin (linalg_norm w) w v = mat_apply m v" for v
    using rv unfolding rotvec_represents_def by blast
  have key: "rotate_about_origin (- linalg_norm w) w (shift (arc_end (qubit_r p z) 0 t) (0, 0, dot p z))
             = rotate_about_origin t z p" for t
  proof -
    have "shift (arc_end (qubit_r p z) 0 t) (0, 0, dot p z) = mat_apply m (rotate_about_origin t z p)"
      using arc_point_is_frame_image [OF zz n0, of t] by (simp add: m_def x_def)
    also have "\<dots> = rotate_about_origin (linalg_norm w) w (rotate_about_origin t z p)"
      by (simp only: rvv)
    finally show ?thesis by (simp add: rotate_inverse)
  qed
  have rvq: "qubit_rotvec lib p z = Inr w" by (simp add: qubit_rotvec_def frm w)
  have anq: "qubit_angle lib p z = Inr (- linalg_norm w)" by (simp add: qubit_angle_def rvq)
  have arcq: "qubit_arc lib p z rot = Inr (snd (qubit_vec p z rot))" for rot
    by (simp add: qubit_arc_def rvq anq key qubit_vec_def)
  have "frame (qubit lib a) = Inr m
           \<and> is_rotation_matrix m
           \<and> rotvec (qubit lib a) = Inr w
           \<and> rotvec_represents w m
           \<and> angle (qubit lib a) = Inr (- linalg_norm w)
           \<and> (\<forall>t. rotate_about_origin (- linalg_norm w) w
                     (shift (arc_end (r (qubit lib a)) 0 t)
                            (0, 0, dot (point (qubit lib a)) (rotate_axis a)))
                   = rotate_about_origin t (rotate_axis a) (point (qubit lib a)))
           \<and> (\<forall>rot. arc (qubit lib a) rot = Inr (snd (vec (qubit lib a) rot)))
           \<and> qubit_call lib a = Inr (qubit lib a)"
    using key arcq rvq anq frm rm rv
    by (simp add: qubit_call_def qubit_def Let_def p_def [symmetric] z_def [symmetric])
  then show ?thesis by blast
qed


lemma quarter_turn_X: "rotate_about_origin (90 * DEGREES) Xaxis (0, 0, 1) = (0, -1, 0)"
proof -
  have d: "90 * DEGREES = pi / 2" by (simp add: DEGREES_def)
  show ?thesis
    unfolding d by (simp add: rotate_unit norm_Xaxis) (simp add: Xaxis_def)
qed

theorem arc_follows_vector_tip_witness:
  "linalg_norm (rotate_axis (call (0, 0) Xaxis 180 False (ket ''0'') (ket ''1'') None)) = 1
   \<and> r (qubit example_library (call (0, 0) Xaxis 180 False (ket ''0'') (ket ''1'') None)) \<noteq> 0
   \<and> as_rotvec_correct example_library
   \<and> arc (qubit example_library (call (0, 0) Xaxis 180 False (ket ''0'') (ket ''1'') None)) 90
       = Inr (snd (vec (qubit example_library
                          (call (0, 0) Xaxis 180 False (ket ''0'') (ket ''1'') None)) 90))
   \<and> snd (vec (qubit example_library (call (0, 0) Xaxis 180 False (ket ''0'') (ket ''1'') None)) 90)
       = (0, -1, 0)"
proof -
  let ?a = "call (0, 0) Xaxis 180 False (ket ''0'') (ket ''1'') None"
  have u: "linalg_norm (rotate_axis ?a) = 1"
    by (simp add: call_def norm_Xaxis)
  have n: "r (qubit example_library ?a) \<noteq> 0"
    by (simp add: qubit_def Let_def call_def point_00 r_x0_call)
  have c: "as_rotvec_correct example_library" by (rule libraries_correct)
  have e: "snd (vec (qubit example_library ?a) 90) = (0, -1, 0)"
    by (simp add: qubit_def Let_def call_def point_00 qubit_vec_def quarter_turn_X)
  from arc_follows_vector_tip [OF u n c] u n c e show ?thesis by blast
qed

subsection \<open>The timeline\<close>






subsection \<open>The coefficient label\<close>








subsection \<open>The division by r\<close>

lemma r_zero_iff_parallel:
  assumes "linalg_norm z = 1"
  shows "qubit_r p z = 0 \<longleftrightarrow> (\<exists>c. p = smul c z)"
proof
  assume "qubit_r p z = 0"
  then have "p = smul (dot p z) z"
    by (simp add: qubit_r_def norm_zero qubit_x0_def vsub_zero_iff)
  then show "\<exists>c. p = smul c z" by blast
next
  assume "\<exists>c. p = smul c z"
  then obtain c where c: "p = smul c z" by blast
  from assms have zz: "dot z z = 1" by (simp add: norm_one)
  have "dot p z = c" using zz by (simp add: c dot_smul)
  then have "qubit_x0 p z = vsub p (smul c z)" by (simp add: qubit_x0_def)
  also have "\<dots> = (0, 0, 0)" using c by (simp add: vsub_zero_iff)
  finally have "qubit_x0 p z = (0, 0, 0)" .
  then show "qubit_r p z = 0" by (simp add: qubit_r_def norm_zero)
qed

lemma frame_error_iff: "qubit_frame p z = Inl ZeroDivision \<longleftrightarrow> qubit_r p z = 0"
  by (simp add: qubit_frame_def qubit_r_def Let_def)

lemma r_Z0_with: "s 0 = 0 \<Longrightarrow> qubit_r (qubit_point_with s c (0, 0)) Zaxis = 0"
  by (simp add: qubit_point_with_def qubit_r_def qubit_x0_def Zaxis_def linalg_norm_def)

lemma r_Z1_with:
  assumes "c 0 = 1"
  shows "(qubit_r (qubit_point_with s c (0, 180)) Zaxis = 0) = (s (180 * DEGREES) = 0)"
proof -
  have "qubit_x0 (qubit_point_with s c (0, 180)) Zaxis
        = (s (180 * DEGREES), s 0 * s (180 * DEGREES), 0)"
    using assms by (simp add: qubit_point_with_def qubit_x0_def Zaxis_def)
  then show ?thesis
    by (auto simp: qubit_r_def norm_zero)
qed

text \<open>
  C3: the division by r has no guard: the frame is undefined exactly when r is zero.  With
  an axis of norm 1, r is zero exactly when the start point is a multiple of the axis.
  The scene Z0 (start (0,0), axis (0,0,1)) reaches the case: r is zero and the division
  is by zero, also with a rounded sine, as long as the sine of 0 is 0.  For the scene Z1
  (start (0,180), axis (0,0,1)) r is zero exactly when the sine of 180 * DEGREES is
  computed as zero: so it is with the exact sine, and not with a sine that returns a
  nonzero value there.
\<close>

theorem unguarded_division_reached:
  "(\<forall>lib a. (frame (qubit lib a) = Inl ZeroDivision) = (r (qubit lib a) = 0))
   \<and> (\<forall>lib a. linalg_norm (rotate_axis a) = 1 \<longrightarrow>
        (r (qubit lib a) = 0) = (\<exists>c. point (qubit lib a) = smul c (rotate_axis a)))
   \<and> (\<forall>lib. map (\<lambda>a. (start_point a, rotate_axis a, r (qubit lib a), frame (qubit lib a)))
                 (construct Z0) = [((0, 0), (0, 0, 1), 0, Inl ZeroDivision)])
   \<and> (\<forall>s c. s 0 = 0 \<longrightarrow> qubit_r (qubit_point_with s c (0, 0)) Zaxis = 0)
   \<and> map (\<lambda>a. (start_point a, rotate_axis a)) (construct Z1) = [((0, 180), (0, 0, 1))]
   \<and> (\<forall>s c. c 0 = 1 \<longrightarrow>
        (qubit_r (qubit_point_with s c (0, 180)) Zaxis = 0) = (s (180 * DEGREES) = 0))
   \<and> qubit_point_with sin cos = qubit_point"
proof -
  have g: "(r (qubit lib a) = 0) = (\<exists>c. point (qubit lib a) = smul c (rotate_axis a))"
    if "linalg_norm (rotate_axis a) = 1" for lib a
    using r_zero_iff_parallel [OF that] by (simp add: qubit_def Let_def)
  have e: "(frame (qubit lib a) = Inl ZeroDivision) = (r (qubit lib a) = 0)" for lib a
    by (simp add: qubit_def Let_def frame_error_iff)
  have rz0: "qubit_r (0, 0, 1) Zaxis = 0"
    by (simp add: qubit_r_def qubit_x0_def Zaxis_def linalg_norm_def)
  have z0: "map (\<lambda>a. (start_point a, rotate_axis a, r (qubit lib a), frame (qubit lib a)))
                 (construct Z0) = [((0, 0), (0, 0, 1), 0, Inl ZeroDivision)]" for lib
    using rz0 by (simp add: qubit_def Let_def call_def point_00 frame_error_iff) (simp add: Zaxis_def)
  have z1: "map (\<lambda>a. (start_point a, rotate_axis a)) (construct Z1) = [((0, 180), (0, 0, 1))]"
    by (simp add: call_def Zaxis_def)
  have w: "qubit_point_with sin cos = qubit_point"
    by (rule ext) (simp add: qubit_point_with_def qubit_point_def)
  have s0: "\<forall>s c. s 0 = 0 \<longrightarrow> qubit_r (qubit_point_with s c (0, 0)) Zaxis = 0"
    by (simp add: r_Z0_with)
  have s1: "\<forall>s c. c 0 = 1 \<longrightarrow>
        (qubit_r (qubit_point_with s c (0, 180)) Zaxis = 0) = (s (180 * DEGREES) = 0)"
    by (simp add: r_Z1_with)
  have g': "\<forall>lib a. linalg_norm (rotate_axis a) = 1 \<longrightarrow>
        (r (qubit lib a) = 0) = (\<exists>c. point (qubit lib a) = smul c (rotate_axis a))"
    using g by (intro allI impI)
  have e': "\<forall>lib a. (frame (qubit lib a) = Inl ZeroDivision) = (r (qubit lib a) = 0)"
    using e by (intro allI)
  have z0': "\<forall>lib. map (\<lambda>a. (start_point a, rotate_axis a, r (qubit lib a), frame (qubit lib a)))
                 (construct Z0) = [((0, 0), (0, 0, 1), 0, Inl ZeroDivision)]"
    using z0 by (intro allI)
  show ?thesis
    by (intro conjI) (rule e' g' z0' s0 z1 s1 w)+
qed


theorem unguarded_division_reached_witness:
  "linalg_norm (rotate_axis (call (0, 0) Zaxis 180 False (ket ''0'') (ket ''0'') None)) = 1
   \<and> r (qubit example_library (call (0, 0) Zaxis 180 False (ket ''0'') (ket ''0'') None)) = 0
   \<and> (\<exists>c. point (qubit example_library (call (0, 0) Zaxis 180 False (ket ''0'') (ket ''0'') None))
            = smul c (rotate_axis (call (0, 0) Zaxis 180 False (ket ''0'') (ket ''0'') None)))
   \<and> frame (qubit example_library (call (0, 0) Zaxis 180 False (ket ''0'') (ket ''0'') None))
       = Inl ZeroDivision
   \<and> sin (0::real) = 0
   \<and> qubit_r (qubit_point_with sin cos (0, 0)) Zaxis = 0
   \<and> cos (0::real) = 1
   \<and> (qubit_r (qubit_point_with sin cos (0, 180)) Zaxis = 0) = (sin (180 * DEGREES) = 0)"
proof -
  let ?a = "call (0, 0) Zaxis 180 False (ket ''0'') (ket ''0'') None"
  have u: "linalg_norm (rotate_axis ?a) = 1" by (simp add: call_def norm_Zaxis)
  have p: "\<exists>c. point (qubit example_library ?a) = smul c (rotate_axis ?a)"
  proof
    show "point (qubit example_library ?a) = smul 1 (rotate_axis ?a)"
      by (simp add: qubit_def Let_def call_def point_00 Zaxis_def)
  qed
  have s0: "sin (0::real) = 0" and c0: "cos (0::real) = 1" by simp_all
  have t: "(frame (qubit example_library ?a) = Inl ZeroDivision) = (r (qubit example_library ?a) = 0)"
    "linalg_norm (rotate_axis ?a) = 1 \<longrightarrow>
        (r (qubit example_library ?a) = 0)
          = (\<exists>c. point (qubit example_library ?a) = smul c (rotate_axis ?a))"
    "sin (0::real) = 0 \<longrightarrow> qubit_r (qubit_point_with sin cos (0, 0)) Zaxis = 0"
    "cos (0::real) = 1 \<longrightarrow>
        (qubit_r (qubit_point_with sin cos (0, 180)) Zaxis = 0) = (sin (180 * DEGREES) = 0)"
    using unguarded_division_reached by blast+
  from t(2) u p have r0: "r (qubit example_library ?a) = 0" by blast
  with t(1) have f0: "frame (qubit example_library ?a) = Inl ZeroDivision" by blast
  from t(3) s0 have a0: "qubit_r (qubit_point_with sin cos (0, 0)) Zaxis = 0" by blast
  from t(4) c0 have a1: "(qubit_r (qubit_point_with sin cos (0, 180)) Zaxis = 0)
      = (sin (180 * DEGREES) = 0)" by blast
  show ?thesis
    by (intro conjI) (rule u r0 p f0 s0 a0 c0 a1)+
qed


text \<open>
  Without the norm 1 the equivalence fails: with the axis (0, 0, 2) the start point
  (0, 0, 1) is a multiple of the axis and r is 3.  And with the value that the sine has in
  double precision at 180 * DEGREES, the r of the scene Z1 is not zero.
\<close>

theorem unguarded_division_counterexample:
  "(\<exists>c. point (qubit example_library (call (0, 0) (0, 0, 2) 180 False (ket ''0'') (ket ''0'') None))
          = smul c (rotate_axis (call (0, 0) (0, 0, 2) 180 False (ket ''0'') (ket ''0'') None)))
   \<and> r (qubit example_library (call (0, 0) (0, 0, 2) 180 False (ket ''0'') (ket ''0'') None)) = 3
   \<and> qubit_r (qubit_point_with
        (\<lambda>x. if x = 180 * DEGREES then 1.2246467991473532 / 10 ^ 16 else sin x) cos (0, 180))
        Zaxis \<noteq> 0"
proof -
  let ?a = "call (0, 0) (0, 0, 2) 180 False (ket ''0'') (ket ''0'') None"
  have p: "point (qubit example_library ?a) = smul (1 / 2) (rotate_axis ?a)"
    by (simp add: qubit_def Let_def call_def point_00)
  have "qubit_x0 (0, 0, 1) (0, 0, 2) = (0, 0, - 3)"
    by (simp add: qubit_x0_def)
  then have r3: "r (qubit example_library ?a) = 3"
    by (simp add: qubit_def Let_def call_def point_00 qubit_r_def linalg_norm_def)
  have "cos (0::real) = 1" by simp
  from r_Z1_with [of cos "\<lambda>x. if x = 180 * DEGREES then 1.2246467991473532 / 10 ^ 16 else sin x", OF this]
  have z1: "qubit_r (qubit_point_with
        (\<lambda>x. if x = 180 * DEGREES then 1.2246467991473532 / 10 ^ 16 else sin x) cos (0, 180))
        Zaxis \<noteq> 0"
    by simp
  from p r3 z1 show ?thesis by blast
qed

end
